theory Spec2Isabelle
  imports Complex_Main "HOL-Library.Word"
begin

section \<open>Values of the rendering backend\<close>

text \<open>
  The lighting area of Candle (\<^verbatim>\<open>src/LightingArea.cpp\<close>) talks to SFML: colours, vertices,
  transforms, blend modes, render states and a render texture. The backend is modelled as far
  as the area's code uses it. \<^verbatim>\<open>float\<close> components are idealised as reals; no statement below
  depends on rounding, and every concrete input is exactly representable in a \<^verbatim>\<open>float\<close>.
\<close>

type_synonym Vector2f = "real \<times> real"

text \<open>\<^verbatim>\<open>sf::Color\<close>: four \<^verbatim>\<open>Uint8\<close> channels r, g, b, a.\<close>

record Color =
  Color_r :: "8 word"
  Color_g :: "8 word"
  Color_b :: "8 word"
  Color_a :: "8 word"

definition Color_White :: Color where
  "Color_White = \<lparr>Color_r = 255, Color_g = 255, Color_b = 255, Color_a = 255\<rparr>"

definition Color_Transparent :: Color where
  "Color_Transparent = \<lparr>Color_r = 0, Color_g = 0, Color_b = 0, Color_a = 0\<rparr>"

text \<open>\<^verbatim>\<open>sf::IntRect\<close>; its default constructor yields the empty rectangle at the origin.\<close>

record IntRect =
  rect_left :: int
  rect_top :: int
  rect_width :: int
  rect_height :: int

definition IntRect_default :: IntRect where
  "IntRect_default = \<lparr>rect_left = 0, rect_top = 0, rect_width = 0, rect_height = 0\<rparr>"

text \<open>\<^verbatim>\<open>sf::Vertex\<close> and \<^verbatim>\<open>sf::VertexArray\<close>. A default vertex is white at the origin.\<close>

record Vertex =
  position :: Vector2f
  color :: Color
  texCoords :: Vector2f

definition Vertex_default :: Vertex where
  "Vertex_default = \<lparr>position = (0, 0), color = Color_White, texCoords = (0, 0)\<rparr>"

datatype PrimitiveType =
  Points | Lines | LineStrip | Triangles | TriangleStrip | TriangleFan | Quads

record VertexArray =
  m_vertices :: "Vertex list"
  m_primitiveType :: PrimitiveType

definition VertexArray_ctor :: "PrimitiveType \<Rightarrow> nat \<Rightarrow> VertexArray" where
  "VertexArray_ctor ty n = \<lparr>m_vertices = replicate n Vertex_default, m_primitiveType = ty\<rparr>"

text \<open>
  The assignments \<^verbatim>\<open>quad[i].position = v\<close> and \<^verbatim>\<open>quad[i].texCoords = v\<close>. Both quads of an
  area hold four vertices from construction on and \<^verbatim>\<open>i\<close> ranges over 0..3, so the index is
  always in range.
\<close>

definition set_position :: "nat \<Rightarrow> Vector2f \<Rightarrow> VertexArray \<Rightarrow> VertexArray" where
  "set_position i v q = q\<lparr>m_vertices := (m_vertices q)[i := (m_vertices q ! i)\<lparr>position := v\<rparr>]\<rparr>"

definition set_texCoords :: "nat \<Rightarrow> Vector2f \<Rightarrow> VertexArray \<Rightarrow> VertexArray" where
  "set_texCoords i v q = q\<lparr>m_vertices := (m_vertices q)[i := (m_vertices q ! i)\<lparr>texCoords := v\<rparr>]\<rparr>"

subsection \<open>Transforms\<close>

text \<open>
  \<^verbatim>\<open>sf::Transform\<close> is a 3x3 matrix, given row by row. \<^verbatim>\<open>combine\<close> (also \<^verbatim>\<open>operator *=\<close>) is the
  matrix product; \<^verbatim>\<open>getInverse\<close> divides the adjugate by the determinant and returns the
  identity for a singular matrix.
\<close>

datatype Transform = Transform real real real real real real real real real

definition Transform_Identity :: Transform where
  "Transform_Identity = Transform 1 0 0 0 1 0 0 0 1"

fun Transform_combine :: "Transform \<Rightarrow> Transform \<Rightarrow> Transform" where
  "Transform_combine (Transform a00 a01 a02 a10 a11 a12 a20 a21 a22)
                     (Transform b00 b01 b02 b10 b11 b12 b20 b21 b22) =
     Transform (a00 * b00 + a01 * b10 + a02 * b20)
               (a00 * b01 + a01 * b11 + a02 * b21)
               (a00 * b02 + a01 * b12 + a02 * b22)
               (a10 * b00 + a11 * b10 + a12 * b20)
               (a10 * b01 + a11 * b11 + a12 * b21)
               (a10 * b02 + a11 * b12 + a12 * b22)
               (a20 * b00 + a21 * b10 + a22 * b20)
               (a20 * b01 + a21 * b11 + a22 * b21)
               (a20 * b02 + a21 * b12 + a22 * b22)"

fun Transform_getInverse :: "Transform \<Rightarrow> Transform" where
  "Transform_getInverse (Transform a00 a01 a02 a10 a11 a12 a20 a21 a22) =
     (let det = a00 * (a22 * a11 - a21 * a12)
              - a10 * (a22 * a01 - a21 * a02)
              + a20 * (a12 * a01 - a11 * a02)
      in if det \<noteq> 0 then
           Transform ((a22 * a11 - a21 * a12) / det)
                     (- (a22 * a01 - a21 * a02) / det)
                     ((a12 * a01 - a11 * a02) / det)
                     (- (a22 * a10 - a20 * a12) / det)
                     ((a22 * a00 - a20 * a02) / det)
                     (- (a12 * a00 - a10 * a02) / det)
                     ((a21 * a10 - a20 * a11) / det)
                     (- (a21 * a00 - a20 * a01) / det)
                     ((a11 * a00 - a10 * a01) / det)
         else Transform_Identity)"

text \<open>
  \<^verbatim>\<open>sf::Transformable\<close>, the base class of both \<^verbatim>\<open>LightingArea\<close> and \<^verbatim>\<open>LightSource\<close>.
\<close>

record Transformable =
  m_origin :: Vector2f
  m_position :: Vector2f
  m_rotation :: real
  m_scale :: Vector2f

definition setPosition :: "Vector2f \<Rightarrow> 'a Transformable_scheme \<Rightarrow> 'a Transformable_scheme" where
  "setPosition p t = t\<lparr>m_position := p\<rparr>"

definition getTransform :: "'a Transformable_scheme \<Rightarrow> Transform" where
  "getTransform t =
     (let angle = - m_rotation t * 3.141592654 / 180;
          cosine = cos angle;
          sine = sin angle;
          sxc = fst (m_scale t) * cosine;
          syc = snd (m_scale t) * cosine;
          sxs = fst (m_scale t) * sine;
          sys = snd (m_scale t) * sine;
          tx = - fst (m_origin t) * sxc - snd (m_origin t) * sys + fst (m_position t);
          ty = fst (m_origin t) * sxs - snd (m_origin t) * syc + snd (m_position t)
      in Transform sxc sys tx (- sxs) syc ty 0 0 1)"

subsection \<open>Blend modes and render states\<close>

datatype Factor =
  Factor_Zero | Factor_One
  | Factor_SrcColor | Factor_OneMinusSrcColor
  | Factor_DstColor | Factor_OneMinusDstColor
  | Factor_SrcAlpha | Factor_OneMinusSrcAlpha
  | Factor_DstAlpha | Factor_OneMinusDstAlpha

datatype Equation = Equation_Add | Equation_Subtract | Equation_ReverseSubtract

record BlendMode =
  colorSrcFactor :: Factor
  colorDstFactor :: Factor
  colorEquation :: Equation
  alphaSrcFactor :: Factor
  alphaDstFactor :: Factor
  alphaEquation :: Equation

definition BlendAlpha :: BlendMode where
  "BlendAlpha = \<lparr>colorSrcFactor = Factor_SrcAlpha, colorDstFactor = Factor_OneMinusSrcAlpha,
                 colorEquation = Equation_Add,
                 alphaSrcFactor = Factor_One, alphaDstFactor = Factor_OneMinusSrcAlpha,
                 alphaEquation = Equation_Add\<rparr>"

definition BlendAdd :: BlendMode where
  "BlendAdd = \<lparr>colorSrcFactor = Factor_SrcAlpha, colorDstFactor = Factor_One,
               colorEquation = Equation_Add,
               alphaSrcFactor = Factor_One, alphaDstFactor = Factor_One,
               alphaEquation = Equation_Add\<rparr>"

definition BlendMultiply :: BlendMode where
  "BlendMultiply = \<lparr>colorSrcFactor = Factor_DstColor, colorDstFactor = Factor_Zero,
                    colorEquation = Equation_Add,
                    alphaSrcFactor = Factor_DstColor, alphaDstFactor = Factor_Zero,
                    alphaEquation = Equation_Add\<rparr>"

text \<open>The file-level blend mode of \<^verbatim>\<open>LightingArea.cpp\<close>, lines 7 to 13.\<close>

definition l_substractAlpha :: BlendMode where
  "l_substractAlpha = \<lparr>colorSrcFactor = Factor_Zero, colorDstFactor = Factor_One,
                       colorEquation = Equation_Add,
                       alphaSrcFactor = Factor_Zero, alphaDstFactor = Factor_OneMinusSrcAlpha,
                       alphaEquation = Equation_Add\<rparr>"

text \<open>
  \<^verbatim>\<open>sf::RenderStates\<close>. A texture pointer is an option (\<^verbatim>\<open>nullptr\<close> is \<open>None\<close>); the type of the
  texture referred to is a parameter, since a scene can be drawn with the texture of a render
  texture. \<^verbatim>\<open>RenderStates::Default\<close> is what a \<^verbatim>\<open>draw\<close> call without states uses and what a
  default-constructed \<^verbatim>\<open>sf::RenderStates\<close> holds.
\<close>

record 'tex RenderStates =
  blendMode :: BlendMode
  transform :: Transform
  texture :: "'tex option"
  shader :: "nat option"

definition RenderStates_Default :: "'tex RenderStates" where
  "RenderStates_Default =
     \<lparr>blendMode = BlendAlpha, transform = Transform_Identity, texture = None, shader = None\<rparr>"

section \<open>Light sources\<close>

text \<open>
  The data members of \<^verbatim>\<open>LightSource\<close> as the header declares them. A segment of an edge pool
  is a pair of points; the set of pool pointers is the list of the pools pointed to. The
  member \<^verbatim>\<open>m_color\<close> is named \<open>m_lightColor\<close> here, \<^verbatim>\<open>LightingArea\<close> has a member of the same
  name.
\<close>

type_synonym Texture = nat

type_synonym Segment = "Vector2f \<times> Vector2f"

record LightSource = Transformable +
  m_lightColor :: Color
  m_polygon :: VertexArray
  m_range :: real
  m_intensity :: real
  m_fade :: bool
  m_shouldRecast :: bool
  m_transformOfLastCast :: Transform
  m_ptrEdgePool :: "Segment list list"

section \<open>The render texture of an area\<close>

text \<open>
  The render surface is an \<^verbatim>\<open>sf::RenderTexture\<close>. The model keeps the calls the area makes
  on it, in order, each with the render states it was made with: what reaches the surface
  is exactly this trace. \<^verbatim>\<open>create\<close> allocates a fresh surface with smoothing off, so it
  starts a new trace; the size is kept as the area passes it.
\<close>

datatype Drawable = DrawableVertexArray VertexArray | DrawableLight LightSource

datatype RenderCall =
  CallClear Color
  | CallDraw Drawable "Texture RenderStates"
  | CallDisplay

record RenderTexture =
  rt_size :: Vector2f
  rt_smooth :: bool
  rt_calls :: "RenderCall list"

definition RenderTexture_default :: RenderTexture where
  "RenderTexture_default = \<lparr>rt_size = (0, 0), rt_smooth = False, rt_calls = []\<rparr>"

definition RenderTexture_create :: "real \<Rightarrow> real \<Rightarrow> RenderTexture \<Rightarrow> RenderTexture" where
  "RenderTexture_create w h rt = \<lparr>rt_size = (w, h), rt_smooth = False, rt_calls = []\<rparr>"

definition RenderTexture_setSmooth :: "bool \<Rightarrow> RenderTexture \<Rightarrow> RenderTexture" where
  "RenderTexture_setSmooth s rt = rt\<lparr>rt_smooth := s\<rparr>"

definition RenderTexture_clear :: "Color \<Rightarrow> RenderTexture \<Rightarrow> RenderTexture" where
  "RenderTexture_clear c rt = rt\<lparr>rt_calls := rt_calls rt @ [CallClear c]\<rparr>"

definition RenderTexture_draw ::
  "Drawable \<Rightarrow> Texture RenderStates \<Rightarrow> RenderTexture \<Rightarrow> RenderTexture" where
  "RenderTexture_draw d s rt = rt\<lparr>rt_calls := rt_calls rt @ [CallDraw d s]\<rparr>"

definition RenderTexture_display :: "RenderTexture \<Rightarrow> RenderTexture" where
  "RenderTexture_display rt = rt\<lparr>rt_calls := rt_calls rt @ [CallDisplay]\<rparr>"

text \<open>
  A scene target records the vertex arrays drawn to it. The texture of a scene draw is
  either a texture of the application or the texture of a render texture
  (\<^verbatim>\<open>m_renderTexture.getTexture()\<close>).
\<close>

datatype TextureRef = TexturePtr Texture | RenderTexture_getTexture RenderTexture

type_synonym RenderTarget = "(VertexArray \<times> TextureRef RenderStates) list"

definition RenderTarget_draw ::
  "VertexArray \<Rightarrow> TextureRef RenderStates \<Rightarrow> RenderTarget \<Rightarrow> RenderTarget" where
  "RenderTarget_draw q s t = t @ [(q, s)]"

section \<open>LightingArea\<close>

datatype Mode = FOG | AMBIENTAL

record LightingArea = Transformable +
  m_mode :: Mode
  m_baseTexture :: "Texture option"
  m_baseTextureRect :: IntRect
  m_baseTextureQuad :: VertexArray
  m_areaQuad :: VertexArray
  m_renderTexture :: RenderTexture
  m_color :: Color
  m_opacity :: real

text \<open>\<^verbatim>\<open>initializeRenderTexture\<close>, lines 15 to 30.\<close>

definition initializeRenderTexture :: "Vector2f \<Rightarrow> LightingArea \<Rightarrow> LightingArea" where
  "initializeRenderTexture sz a =
     (let x = fst sz; y = snd sz;
          rt = RenderTexture_setSmooth True (RenderTexture_create x y (m_renderTexture a));
          aq = set_texCoords 0 (0, 0) (m_areaQuad a);
          aq = set_position 0 (0, 0) aq;
          bq = set_position 0 (0, 0) (m_baseTextureQuad a);
          aq = set_texCoords 1 (x, 0) aq;
          aq = set_position 1 (x, 0) aq;
          bq = set_position 1 (x, 0) bq;
          aq = set_texCoords 2 (x, y) aq;
          aq = set_position 2 (x, y) aq;
          bq = set_position 2 (x, y) bq;
          aq = set_texCoords 3 (0, y) aq;
          aq = set_position 3 (0, y) aq;
          bq = set_position 3 (0, y) bq
      in a\<lparr>m_renderTexture := rt, m_areaQuad := aq, m_baseTextureQuad := bq\<rparr>)"

text \<open>\<^verbatim>\<open>setTextureRect\<close>, lines 107 to 112: it writes the texture coordinates of the base quad.\<close>

definition setTextureRect :: "IntRect \<Rightarrow> LightingArea \<Rightarrow> LightingArea" where
  "setTextureRect rect a =
     (let bq = set_texCoords 0 (real_of_int (rect_left rect), real_of_int (rect_top rect))
                 (m_baseTextureQuad a);
          bq = set_texCoords 1 (real_of_int (rect_left rect + rect_width rect),
                                real_of_int (rect_top rect)) bq;
          bq = set_texCoords 2 (real_of_int (rect_left rect + rect_width rect),
                                real_of_int (rect_top rect + rect_height rect)) bq;
          bq = set_texCoords 3 (real_of_int (rect_left rect),
                                real_of_int (rect_top rect + rect_height rect)) bq
      in a\<lparr>m_baseTextureQuad := bq\<rparr>)"

text \<open>\<^verbatim>\<open>setAreaTexture\<close>, lines 101 to 105.\<close>

definition setAreaTexture :: "Texture option \<Rightarrow> IntRect \<Rightarrow> LightingArea \<Rightarrow> LightingArea" where
  "setAreaTexture tex rect a =
     setTextureRect rect
       (initializeRenderTexture (real_of_int (rect_width rect), real_of_int (rect_height rect))
          (a\<lparr>m_baseTexture := tex\<rparr>))"

text \<open>\<^verbatim>\<open>getTextureRect\<close>, lines 114 to 116.\<close>

definition getTextureRect :: "LightingArea \<Rightarrow> IntRect" where
  "getTextureRect a = m_baseTextureRect a"

text \<open>
  The two constructors, lines 32 to 50. Neither assigns \<^verbatim>\<open>m_opacity\<close>, a \<^verbatim>\<open>float\<close>: its value
  after construction is whatever the object's storage held, the parameter \<open>opacity0\<close>.
  \<^verbatim>\<open>m_baseTextureRect\<close> and the \<^verbatim>\<open>Transformable\<close> base are default-constructed. The second
  constructor leaves \<^verbatim>\<open>m_baseTexture\<close> to \<^verbatim>\<open>setAreaTexture\<close>.
\<close>

definition LightingArea_members :: "Mode \<Rightarrow> real \<Rightarrow> LightingArea" where
  "LightingArea_members mode opacity0 =
     \<lparr>m_origin = (0, 0), m_position = (0, 0), m_rotation = 0, m_scale = (1, 1),
      m_mode = mode, m_baseTexture = None, m_baseTextureRect = IntRect_default,
      m_baseTextureQuad = VertexArray_ctor Quads 4, m_areaQuad = VertexArray_ctor Quads 4,
      m_renderTexture = RenderTexture_default, m_color = Color_White, m_opacity = opacity0\<rparr>"

definition LightingArea_ctor :: "Mode \<Rightarrow> Vector2f \<Rightarrow> Vector2f \<Rightarrow> real \<Rightarrow> LightingArea" where
  "LightingArea_ctor mode pos sz opacity0 =
     setPosition pos
       (initializeRenderTexture sz ((LightingArea_members mode opacity0)\<lparr>m_baseTexture := None\<rparr>))"

definition LightingArea_ctor_texture ::
  "Mode \<Rightarrow> Texture option \<Rightarrow> IntRect \<Rightarrow> real \<Rightarrow> LightingArea" where
  "LightingArea_ctor_texture mode t r opacity0 =
     setAreaTexture t r (LightingArea_members mode opacity0)"

text \<open>Colour and opacity, lines 70 to 90.\<close>

definition setAreaColor :: "Color \<Rightarrow> LightingArea \<Rightarrow> LightingArea" where
  "setAreaColor c a = a\<lparr>m_color := c\<rparr>"

definition getAreaColor :: "LightingArea \<Rightarrow> Color" where
  "getAreaColor a = m_color a"

text \<open>
  \<^verbatim>\<open>ret.a *= m_opacity\<close> multiplies in \<^verbatim>\<open>float\<close> and converts the product back to \<^verbatim>\<open>Uint8\<close>,
  which drops the fraction. For a product whose integral part is outside 0..255 C++ leaves
  the conversion undefined; the model reduces modulo 256 there, and nothing below relies on
  it.
\<close>

definition Uint8_of_float :: "real \<Rightarrow> 8 word" where
  "Uint8_of_float x = word_of_int (if 0 \<le> x then \<lfloor>x\<rfloor> else \<lceil>x\<rceil>)"

definition getActualColor :: "LightingArea \<Rightarrow> Color" where
  "getActualColor a =
     (let ret = m_color a
      in ret\<lparr>Color_a := Uint8_of_float (real (unat (Color_a ret)) * m_opacity a)\<rparr>)"

definition setAreaOpacity :: "real \<Rightarrow> LightingArea \<Rightarrow> LightingArea" where
  "setAreaOpacity opacity a = a\<lparr>m_opacity := opacity\<rparr>"

definition getAreaOpacity :: "LightingArea \<Rightarrow> real" where
  "getAreaOpacity a = m_opacity a"

text \<open>
  \<^verbatim>\<open>clear\<close>, lines 61 to 68. The base quad is drawn with one argument, that is with
  \<^verbatim>\<open>RenderStates::Default\<close>.
\<close>

definition clear :: "LightingArea \<Rightarrow> LightingArea" where
  "clear a =
     (if m_baseTexture a \<noteq> None then
        a\<lparr>m_renderTexture :=
            RenderTexture_draw (DrawableVertexArray (m_baseTextureQuad a)) RenderStates_Default
              (RenderTexture_clear Color_Transparent (m_renderTexture a))\<rparr>
      else
        a\<lparr>m_renderTexture := RenderTexture_clear (getActualColor a) (m_renderTexture a)\<rparr>)"

text \<open>
  \<^verbatim>\<open>draw(const LightSource&)\<close>, lines 92 to 99. The function builds the render states
  \<^verbatim>\<open>fogrs\<close> (lines 94 to 96) and then calls \<^verbatim>\<open>m_renderTexture.draw(light)\<close> with the light
  alone, so the draw is made with \<^verbatim>\<open>RenderStates::Default\<close> and \<^verbatim>\<open>fogrs\<close> is not used.
\<close>

definition fogrs :: "LightingArea \<Rightarrow> Texture RenderStates" where
  "fogrs a =
     (let s = RenderStates_Default;
          s = s\<lparr>blendMode := l_substractAlpha\<rparr>
      in s\<lparr>transform := Transform_combine (transform s) (Transform_getInverse (getTransform a))\<rparr>)"

definition LightingArea_draw_light :: "LightSource \<Rightarrow> LightingArea \<Rightarrow> LightingArea" where
  "LightingArea_draw_light light a =
     (if 0 < m_opacity a \<and> m_mode a = FOG then
        (let unused = fogrs a
         in a\<lparr>m_renderTexture :=
                RenderTexture_draw (DrawableLight light) RenderStates_Default (m_renderTexture a)\<rparr>)
      else a)"

text \<open>\<^verbatim>\<open>display\<close>, lines 118 to 120.\<close>

definition display :: "LightingArea \<Rightarrow> LightingArea" where
  "display a = a\<lparr>m_renderTexture := RenderTexture_display (m_renderTexture a)\<rparr>"

text \<open>\<^verbatim>\<open>draw(sf::RenderTarget&, sf::RenderStates)\<close>, lines 52 to 59; the area is not changed.\<close>

definition LightingArea_draw ::
  "LightingArea \<Rightarrow> RenderTarget \<Rightarrow> TextureRef RenderStates \<Rightarrow> RenderTarget" where
  "LightingArea_draw a t s =
     (let s = (if m_mode a = AMBIENTAL then s\<lparr>blendMode := BlendAdd\<rparr> else s);
          s = s\<lparr>transform := Transform_combine (transform s) (getTransform a)\<rparr>;
          s = s\<lparr>texture := Some (RenderTexture_getTexture (m_renderTexture a))\<rparr>
      in RenderTarget_draw (m_areaQuad a) s t)"

section \<open>Sequences of calls\<close>

text \<open>
  The operations a caller can invoke on an area after construction, and a run of them in
  order.
\<close>

datatype Operation =
  OpClear
  | OpDrawLight LightSource
  | OpDisplay
  | OpSetAreaColor Color
  | OpSetAreaOpacity real
  | OpSetAreaTexture "Texture option" IntRect
  | OpSetTextureRect IntRect

fun apply_op :: "Operation \<Rightarrow> LightingArea \<Rightarrow> LightingArea" where
  "apply_op OpClear a = clear a"
| "apply_op (OpDrawLight light) a = LightingArea_draw_light light a"
| "apply_op OpDisplay a = display a"
| "apply_op (OpSetAreaColor c) a = setAreaColor c a"
| "apply_op (OpSetAreaOpacity v) a = setAreaOpacity v a"
| "apply_op (OpSetAreaTexture t r) a = setAreaTexture t r a"
| "apply_op (OpSetTextureRect r) a = setTextureRect r a"

fun run :: "Operation list \<Rightarrow> LightingArea \<Rightarrow> LightingArea" where
  "run [] a = a"
| "run (op # ops) a = run ops (apply_op op a)"

section \<open>What a blend mode does to a pixel\<close>

text \<open>
  The backend blends a source pixel over a destination pixel channel by channel: each side
  is scaled by its factor and the two are joined by the equation, colour and alpha apart,
  and the result is clamped. Channels are normalised to the interval from 0 to 1; a pixel is
  (r, g, b, a).
\<close>

type_synonym Pixel = "real \<times> real \<times> real \<times> real"

fun factor :: "Factor \<Rightarrow> Pixel \<Rightarrow> Pixel \<Rightarrow> Pixel" where
  "factor Factor_Zero src dst = (0, 0, 0, 0)"
| "factor Factor_One src dst = (1, 1, 1, 1)"
| "factor Factor_SrcColor src dst = src"
| "factor Factor_OneMinusSrcColor (sr, sg, sb, sa) dst = (1 - sr, 1 - sg, 1 - sb, 1 - sa)"
| "factor Factor_DstColor src dst = dst"
| "factor Factor_OneMinusDstColor src (dr, dg, db, da) = (1 - dr, 1 - dg, 1 - db, 1 - da)"
| "factor Factor_SrcAlpha (sr, sg, sb, sa) dst = (sa, sa, sa, sa)"
| "factor Factor_OneMinusSrcAlpha (sr, sg, sb, sa) dst = (1 - sa, 1 - sa, 1 - sa, 1 - sa)"
| "factor Factor_DstAlpha src (dr, dg, db, da) = (da, da, da, da)"
| "factor Factor_OneMinusDstAlpha src (dr, dg, db, da) = (1 - da, 1 - da, 1 - da, 1 - da)"

fun equation :: "Equation \<Rightarrow> real \<Rightarrow> real \<Rightarrow> real" where
  "equation Equation_Add s d = s + d"
| "equation Equation_Subtract s d = s - d"
| "equation Equation_ReverseSubtract s d = d - s"

definition clamp01 :: "real \<Rightarrow> real" where
  "clamp01 x = max 0 (min 1 x)"

definition blend :: "BlendMode \<Rightarrow> Pixel \<Rightarrow> Pixel \<Rightarrow> Pixel" where
  "blend bm src dst =
     (case (src, dst, factor (colorSrcFactor bm) src dst, factor (colorDstFactor bm) src dst,
            factor (alphaSrcFactor bm) src dst, factor (alphaDstFactor bm) src dst) of
        ((sr, sg, sb, sa), (dr, dg, db, da), (csr, csg, csb, csa), (cdr, cdg, cdb, cda),
         (asr, asg, asb, asa), (adr, adg, adb, ada)) \<Rightarrow>
          (clamp01 (equation (colorEquation bm) (sr * csr) (dr * cdr)),
           clamp01 (equation (colorEquation bm) (sg * csg) (dg * cdg)),
           clamp01 (equation (colorEquation bm) (sb * csb) (db * cdb)),
           clamp01 (equation (alphaEquation bm) (sa * asa) (da * ada))))"

section \<open>The compositing protocol of the specification\<close>

text \<open>
  The specification gives a state machine for each area and frame:
  Idle, then Cleared by \<^verbatim>\<open>clear\<close>, then Accumulating by any number of \<^verbatim>\<open>draw\<close>, then
  Finalized by \<^verbatim>\<open>display\<close>, then Idle again. \<open>protocol_step\<close> follows these words, not the
  code: it is \<open>None\<close> where the specification calls the step a misuse. The setters are not
  part of the protocol and leave the phase alone.
\<close>

datatype Phase = Idle | Cleared | Accumulating | Finalized

fun protocol_step :: "Phase \<Rightarrow> Operation \<Rightarrow> Phase option" where
  "protocol_step Idle OpClear = Some Cleared"
| "protocol_step Finalized OpClear = Some Cleared"
| "protocol_step Cleared (OpDrawLight l) = Some Accumulating"
| "protocol_step Accumulating (OpDrawLight l) = Some Accumulating"
| "protocol_step Cleared OpDisplay = Some Finalized"
| "protocol_step Accumulating OpDisplay = Some Finalized"
| "protocol_step p OpClear = None"
| "protocol_step p (OpDrawLight l) = None"
| "protocol_step p OpDisplay = None"
| "protocol_step p other = Some p"

fun protocol_run :: "Phase \<Rightarrow> Operation list \<Rightarrow> Phase option" where
  "protocol_run p [] = Some p"
| "protocol_run p (op # ops) =
     (case protocol_step p op of None \<Rightarrow> None | Some q \<Rightarrow> protocol_run q ops)"

section \<open>Ray casting\<close>

text \<open>
  Modelled from the spec: \<^verbatim>\<open>LightSource::castRay\<close>, of which the sources hold the
  declaration only (\<^verbatim>\<open>sf::Vector2f castRay(sfu::Line ray, float maxRange)\<close>); the type
  \<^verbatim>\<open>sfu::Line\<close> is missing too. After section 4.2 of the specification a ray is an origin
  and a target angle, and \<^verbatim>\<open>castRay\<close> returns the point where the ray first meets a segment
  of any pool the light refers to, or the point at distance \<^verbatim>\<open>maxRange\<close> along the ray if
  no segment is met within \<^verbatim>\<open>maxRange\<close>. The nearest intersection wins, that of least
  positive parametric distance; segments parallel to the ray and intersections at distance 0
  are ignored.
\<close>

record Ray =
  ray_origin :: Vector2f
  ray_angle :: real

text \<open>
  Modelled from the spec: the direction of a ray is the unit vector at its target angle, and
  the point at parametric distance \<open>t\<close> along the ray is the origin moved by \<open>t\<close> times the
  direction.
\<close>

definition ray_direction :: "Ray \<Rightarrow> Vector2f" where
  "ray_direction r = (cos (ray_angle r), sin (ray_angle r))"

definition ray_point :: "Ray \<Rightarrow> real \<Rightarrow> Vector2f" where
  "ray_point r t = (fst (ray_origin r) + t * fst (ray_direction r),
                    snd (ray_origin r) + t * snd (ray_direction r))"

text \<open>The cross product of two plane vectors.\<close>

definition cross :: "Vector2f \<Rightarrow> Vector2f \<Rightarrow> real" where
  "cross u v = fst u * snd v - snd u * fst v"

text \<open>
  Modelled from the spec: the parametric distance along the ray at which it meets a
  segment, \<open>None\<close> for a parallel segment or a meeting point off the segment.
\<close>

definition ray_segment_intersection :: "Ray \<Rightarrow> Segment \<Rightarrow> real option" where
  "ray_segment_intersection r seg =
     (let d = ray_direction r;
          e = (fst (snd seg) - fst (fst seg), snd (snd seg) - snd (fst seg));
          w = (fst (fst seg) - fst (ray_origin r), snd (fst seg) - snd (ray_origin r));
          den = cross d e
      in if den = 0 then None
         else (let t = cross w e / den; s = cross w d / den
               in if 0 \<le> s \<and> s \<le> 1 then Some t else None))"

text \<open>
  Modelled from the spec: the distances of the intersections that count, positive and
  within \<^verbatim>\<open>maxRange\<close>, over every segment of every pool of the light.
\<close>

definition ray_hits :: "LightSource \<Rightarrow> Ray \<Rightarrow> real \<Rightarrow> real list" where
  "ray_hits light r maxRange =
     filter (\<lambda>t. 0 < t \<and> t \<le> maxRange)
       (List.map_filter (ray_segment_intersection r) (concat (m_ptrEdgePool light)))"

text \<open>Modelled from the spec: \<^verbatim>\<open>castRay\<close> itself, the missing function.\<close>

definition castRay :: "LightSource \<Rightarrow> Ray \<Rightarrow> real \<Rightarrow> Vector2f" where
  "castRay light r maxRange =
     (case ray_hits light r maxRange of
        [] \<Rightarrow> ray_point r maxRange
      | t # ts \<Rightarrow> ray_point r (fold min ts t))"

text \<open>The Euclidean distance of two points.\<close>

definition distance :: "Vector2f \<Rightarrow> Vector2f \<Rightarrow> real" where
  "distance p q = sqrt ((fst p - fst q)\<^sup>2 + (snd p - snd q)\<^sup>2)"

section \<open>Concrete inputs\<close>

text \<open>A light and a wall, used where a statement is evaluated at a concrete input.\<close>

definition example_light :: LightSource where
  "example_light =
     \<lparr>m_origin = (0, 0), m_position = (0, 0), m_rotation = 0, m_scale = (1, 1),
      m_lightColor = Color_White, m_polygon = VertexArray_ctor TriangleFan 0,
      m_range = 100, m_intensity = 1, m_fade = True, m_shouldRecast = True,
      m_transformOfLastCast = Transform_Identity,
      m_ptrEdgePool = [[((3, - 1), (3, 1))]]\<rparr>"

definition example_rect :: IntRect where
  "example_rect = \<lparr>rect_left = 0, rect_top = 0, rect_width = 10, rect_height = 10\<rparr>"

section \<open>Unfolding the operations\<close>

lemmas area_defs = LightingArea_ctor_def LightingArea_ctor_texture_def LightingArea_members_def
  setPosition_def initializeRenderTexture_def setTextureRect_def setAreaTexture_def
  setAreaOpacity_def setAreaColor_def clear_def display_def LightingArea_draw_light_def
  RenderTexture_create_def RenderTexture_setSmooth_def RenderTexture_clear_def
  RenderTexture_draw_def RenderTexture_display_def RenderTexture_default_def

lemmas ray_defs = ray_hits_def example_light_def List.map_filter_simps
  ray_segment_intersection_def ray_direction_def cross_def Let_def castRay_def ray_point_def

lemma run_append: "run (xs @ ys) a = run ys (run xs a)"
  by (induction xs arbitrary: a) simp_all

lemma draw_light_calls:
  "rt_calls (m_renderTexture (LightingArea_draw_light light a)) =
     rt_calls (m_renderTexture a) @
       (if 0 < m_opacity a \<and> m_mode a = FOG
        then [CallDraw (DrawableLight light) RenderStates_Default] else [])"
  by (simp add: LightingArea_draw_light_def RenderTexture_draw_def)

lemma display_calls:
  "rt_calls (m_renderTexture (display a)) = rt_calls (m_renderTexture a) @ [CallDisplay]"
  by (simp add: display_def RenderTexture_display_def)

section \<open>Opacity\<close>

text \<open>
  C10. For every value \<open>v\<close>, in or out of the interval from 0 to 1, \<^verbatim>\<open>getAreaOpacity()\<close>
  after \<^verbatim>\<open>setAreaOpacity(v)\<close> returns \<open>v\<close> itself: the setter stores its argument without
  clamping.
\<close>

theorem setAreaOpacity_get:
  "getAreaOpacity (setAreaOpacity v a) = v"
  by (simp add: getAreaOpacity_def setAreaOpacity_def)

section \<open>The mode is fixed at construction\<close>

lemma apply_op_mode: "m_mode (apply_op op a) = m_mode a"
  by (cases op) (simp_all add: area_defs Let_def)

lemma run_mode: "m_mode (run ops a) = m_mode a"
  by (induction ops arbitrary: a) (simp_all add: apply_op_mode)

lemma ctor_mode: "m_mode (LightingArea_ctor mode pos sz opacity0) = mode"
  by (simp add: area_defs Let_def)

lemma ctor_texture_mode: "m_mode (LightingArea_ctor_texture mode t r opacity0) = mode"
  by (simp add: area_defs Let_def)

text \<open>
  C7. The mode of an area is the one given to its constructor, either constructor, and it
  is still that mode after any sequence of \<^verbatim>\<open>clear\<close>, \<^verbatim>\<open>draw\<close>, \<^verbatim>\<open>display\<close>, \<^verbatim>\<open>setAreaColor\<close>,
  \<^verbatim>\<open>setAreaOpacity\<close>, \<^verbatim>\<open>setAreaTexture\<close> and \<^verbatim>\<open>setTextureRect\<close>.
\<close>

theorem mode_fixed:
  "m_mode (run ops (LightingArea_ctor mode pos sz opacity0)) = mode \<and>
   m_mode (run ops (LightingArea_ctor_texture mode t r opacity0)) = mode"
  by (simp add: run_mode ctor_mode ctor_texture_mode)

section \<open>The texture rectangle\<close>

lemma getTextureRect_setAreaTexture:
  "getTextureRect (setAreaTexture t r a) = getTextureRect a"
  by (simp add: getTextureRect_def area_defs Let_def)

lemma getTextureRect_setTextureRect:
  "getTextureRect (setTextureRect r a) = getTextureRect a"
  by (simp add: getTextureRect_def area_defs Let_def)

text \<open>
  C9. The claim is that \<^verbatim>\<open>getTextureRect()\<close> after \<^verbatim>\<open>setAreaTexture(t, r)\<close> returns \<open>r\<close>.
  \<^verbatim>\<open>getTextureRect\<close> returns \<^verbatim>\<open>m_baseTextureRect\<close>, which neither \<^verbatim>\<open>setAreaTexture\<close> nor
  \<^verbatim>\<open>setTextureRect\<close> assigns. On a fresh area, after \<^verbatim>\<open>setAreaTexture\<close> with texture 7 and
  the rectangle (0, 0, 10, 10), it returns the default rectangle (0, 0, 0, 0), not the
  rectangle that was set.
\<close>

theorem getTextureRect_after_setAreaTexture:
  "getTextureRect (setAreaTexture (Some 7) example_rect
      (LightingArea_ctor FOG (0, 0) (10, 10) 1)) = IntRect_default
   \<and> IntRect_default \<noteq> example_rect"
  by (simp add: getTextureRect_setAreaTexture getTextureRect_def area_defs Let_def
      IntRect_default_def example_rect_def)

section \<open>Drawing a light onto the area\<close>

lemma draw_light_no_opacity: "m_opacity a \<le> 0 \<Longrightarrow> LightingArea_draw_light light a = a"
  by (simp add: LightingArea_draw_light_def)

lemma l_substractAlpha_blend:
  "blend l_substractAlpha (sr, sg, sb, sa) (dr, dg, db, da) =
     (clamp01 dr, clamp01 dg, clamp01 db, clamp01 (da * (1 - sa)))"
  by (simp add: blend_def l_substractAlpha_def)

text \<open>
  C1. As amended: for an area whose mode is ambient, \<^verbatim>\<open>draw(light)\<close> draws nothing. The
  area, its render surface included, is exactly what it was before the call, so the surface
  keeps the base that \<^verbatim>\<open>clear()\<close> established. The guard of \<^verbatim>\<open>draw(light)\<close> lets only fog
  areas draw.
\<close>

theorem ambient_draw_light_draws_nothing:
  "m_mode a = AMBIENTAL \<Longrightarrow> LightingArea_draw_light light a = a"
  by (simp add: LightingArea_draw_light_def)

theorem ambient_draw_light_draws_nothing_witness:
  "m_mode (clear (setAreaOpacity 1 (LightingArea_ctor AMBIENTAL (0, 0) (10, 10) 0))) = AMBIENTAL
   \<and> LightingArea_draw_light example_light
        (clear (setAreaOpacity 1 (LightingArea_ctor AMBIENTAL (0, 0) (10, 10) 0)))
      = clear (setAreaOpacity 1 (LightingArea_ctor AMBIENTAL (0, 0) (10, 10) 0))"
proof -
  have h: "m_mode (clear (setAreaOpacity 1 (LightingArea_ctor AMBIENTAL (0, 0) (10, 10) 0)))
             = AMBIENTAL"
    by (simp add: area_defs Let_def)
  show ?thesis
    by (rule conjI [OF h ambient_draw_light_draws_nothing [OF h]])
qed

text \<open>
  The claim as stated fails: an ambient area of opacity 1 is cleared and a light is drawn
  onto it; the surface has received the clear and no draw at all, with additive blending or
  any other.
\<close>

theorem ambient_draw_light_counterexample:
  "rt_calls (m_renderTexture (LightingArea_draw_light example_light
      (clear (setAreaOpacity 1 (LightingArea_ctor AMBIENTAL (0, 0) (10, 10) 0)))))
     = [CallClear Color_White]"
  by (simp add: area_defs Let_def getActualColor_def Uint8_of_float_def Color_White_def)

text \<open>
  C2. The claim is that a fog area of positive opacity draws the light with the inverse of
  the area's transform in the render states. The code computes that transform into
  \<^verbatim>\<open>fogrs\<close> and draws without it. For a fog area at position (10, 0) with opacity 1 the
  light is drawn with the default states, whose transform is the identity, while the inverse
  of the area's transform is the translation by (-10, 0).
\<close>

theorem fog_draw_light_drops_inverse_transform:
  "rt_calls (m_renderTexture (LightingArea_draw_light example_light
        (setAreaOpacity 1 (LightingArea_ctor FOG (10, 0) (100, 100) 0))))
     = [CallDraw (DrawableLight example_light) RenderStates_Default]
   \<and> transform (RenderStates_Default :: Texture RenderStates) = Transform 1 0 0 0 1 0 0 0 1
   \<and> transform (fogrs (setAreaOpacity 1 (LightingArea_ctor FOG (10, 0) (100, 100) 0)))
       = Transform 1 0 (- 10) 0 1 0 0 0 1"
  by (simp add: area_defs Let_def RenderStates_Default_def fogrs_def getTransform_def
      Transform_Identity_def)

text \<open>
  C3. The claim is that a fog area draws a light only when its opacity is positive, and
  then with a blend mode that leaves the destination colour alone and lowers the
  destination alpha by the source alpha. The first half holds (\<open>draw_light_no_opacity\<close>).
  The blend mode of the claim is \<^verbatim>\<open>l_substractAlpha\<close> (\<open>l_substractAlpha_blend\<close>), which
  the code puts into \<^verbatim>\<open>fogrs\<close> and then does not pass on. For a fog area of opacity 1 the
  light is drawn with the default states, that is with \<^verbatim>\<open>BlendAlpha\<close>: an opaque white
  source over opaque black gives opaque white, where \<^verbatim>\<open>l_substractAlpha\<close> keeps the black and
  takes the alpha to 0.
\<close>

theorem fog_draw_light_drops_blend_mode:
  "rt_calls (m_renderTexture (LightingArea_draw_light example_light
        (setAreaOpacity 1 (LightingArea_ctor FOG (0, 0) (100, 100) 0))))
     = [CallDraw (DrawableLight example_light) RenderStates_Default]
   \<and> blendMode (RenderStates_Default :: Texture RenderStates) = BlendAlpha
   \<and> blend BlendAlpha (1, 1, 1, 1) (0, 0, 0, 1) = (1, 1, 1, 1)
   \<and> blend l_substractAlpha (1, 1, 1, 1) (0, 0, 0, 1) = (0, 0, 0, 0)"
  by (simp add: area_defs Let_def RenderStates_Default_def blend_def BlendAlpha_def
      l_substractAlpha_def clamp01_def)

section \<open>Clearing the area\<close>

lemma Uint8_of_float_floor: "0 \<le> x \<Longrightarrow> Uint8_of_float x = word_of_int \<lfloor>x\<rfloor>"
  by (simp add: Uint8_of_float_def)

text \<open>
  Without a base texture the surface is cleared to the area colour with its alpha
  multiplied by the opacity, the product converted to \<^verbatim>\<open>Uint8\<close>.
\<close>

lemma clear_flat_color:
  "m_baseTexture a = None \<Longrightarrow>
   rt_calls (m_renderTexture (clear a)) = rt_calls (m_renderTexture a) @
     [CallClear \<lparr>Color_r = Color_r (m_color a), Color_g = Color_g (m_color a),
                 Color_b = Color_b (m_color a),
                 Color_a = Uint8_of_float (real (unat (Color_a (m_color a))) * m_opacity a)\<rparr>]"
  by (simp add: clear_def RenderTexture_clear_def getActualColor_def Let_def)

lemma clear_flat_color_half:
  "getActualColor (setAreaOpacity (1 / 2) (LightingArea_ctor FOG (0, 0) (10, 10) 0))
     = \<lparr>Color_r = 255, Color_g = 255, Color_b = 255, Color_a = 127\<rparr>"
  by (simp add: area_defs getActualColor_def Let_def Uint8_of_float_def Color_White_def)

text \<open>
  C4. The claim is that \<^verbatim>\<open>clear()\<close> with a base texture clears the surface to transparent
  and draws the base texture into it, and without one clears to the area colour with its
  alpha multiplied by the opacity. The second half is \<open>clear_flat_color\<close>. For the first,
  the area built from texture 7 and the rectangle (0, 0, 10, 10) holds that texture, and
  \<^verbatim>\<open>clear()\<close> clears to transparent and draws the base quad with the default render states,
  whose texture is null: the quad reaches the surface untextured and the base texture is not
  drawn.
\<close>

theorem clear_draws_base_quad_without_texture:
  "m_baseTexture (LightingArea_ctor_texture FOG (Some 7) example_rect 1) = Some 7
   \<and> rt_calls (m_renderTexture (clear (LightingArea_ctor_texture FOG (Some 7) example_rect 1)))
     = [CallClear Color_Transparent,
        CallDraw (DrawableVertexArray
                    (m_baseTextureQuad (LightingArea_ctor_texture FOG (Some 7) example_rect 1)))
          RenderStates_Default]
   \<and> texture (RenderStates_Default :: Texture RenderStates) = None"
  by (simp add: area_defs Let_def RenderStates_Default_def)

section \<open>The order of the calls\<close>

text \<open>
  C5. As amended: the area keeps no record of the phase of the frame and refuses no call.
  After any sequence of calls, in protocol order or not, \<^verbatim>\<open>display()\<close> finalises the surface,
  and \<^verbatim>\<open>draw(light)\<close> draws the light if the mode is fog and the opacity positive and does
  nothing otherwise; neither looks at what was called before.
\<close>

theorem protocol_not_enforced:
  "rt_calls (m_renderTexture (run (ops @ [OpDisplay]) a)) =
     rt_calls (m_renderTexture (run ops a)) @ [CallDisplay]
   \<and> rt_calls (m_renderTexture (run (ops @ [OpDrawLight light]) a)) =
     rt_calls (m_renderTexture (run ops a)) @
       (if 0 < m_opacity (run ops a) \<and> m_mode (run ops a) = FOG
        then [CallDraw (DrawableLight light) RenderStates_Default] else [])"
  by (simp add: run_append draw_light_calls display_calls)

text \<open>
  The claim as stated fails. On a fresh fog area of opacity 1, a \<^verbatim>\<open>draw(light)\<close> before any
  \<^verbatim>\<open>clear()\<close> is a misuse for the protocol and yet reaches the surface; so does a
  \<^verbatim>\<open>display()\<close> without a \<^verbatim>\<open>clear()\<close>, and a \<^verbatim>\<open>draw(light)\<close> after \<^verbatim>\<open>display()\<close>.
\<close>

theorem protocol_misuse_counterexample:
  "protocol_run Idle [OpDrawLight example_light] = None
   \<and> rt_calls (m_renderTexture (run [OpDrawLight example_light]
        (setAreaOpacity 1 (LightingArea_ctor FOG (0, 0) (10, 10) 0))))
      = [CallDraw (DrawableLight example_light) RenderStates_Default]
   \<and> protocol_run Idle [OpDisplay] = None
   \<and> rt_calls (m_renderTexture (run [OpDisplay] (LightingArea_ctor FOG (0, 0) (10, 10) 0)))
      = [CallDisplay]
   \<and> protocol_run Idle [OpClear, OpDisplay, OpDrawLight example_light] = None
   \<and> rt_calls (m_renderTexture (run [OpClear, OpDisplay, OpDrawLight example_light]
        (setAreaOpacity 1 (LightingArea_ctor FOG (0, 0) (10, 10) 0))))
      = [CallClear Color_White, CallDisplay,
         CallDraw (DrawableLight example_light) RenderStates_Default]"
  by (simp add: area_defs Let_def getActualColor_def Uint8_of_float_def Color_White_def)

section \<open>Drawing the area into a scene\<close>

text \<open>
  C6. As amended: drawing the area into a scene target draws its quad once, textured with
  the texture of the render surface, under the caller's transform combined with the area's
  transform. An ambient area is drawn with additive blending; a fog area is drawn with the
  blend mode of the render states the caller passes, which is alpha blending for the default
  render states.
\<close>

theorem area_draw_states:
  "LightingArea_draw a t s = t @
     [(m_areaQuad a,
       \<lparr>blendMode = (if m_mode a = AMBIENTAL then BlendAdd else blendMode s),
        transform = Transform_combine (transform s) (getTransform a),
        texture = Some (RenderTexture_getTexture (m_renderTexture a)),
        shader = shader s\<rparr>)]
   \<and> blendMode (snd (last (LightingArea_draw a t RenderStates_Default)))
       = (if m_mode a = AMBIENTAL then BlendAdd else BlendAlpha)"
  by (simp add: LightingArea_draw_def Let_def RenderTarget_draw_def RenderStates_Default_def)

text \<open>
  The claim as stated fails: a fog area drawn with render states whose blend mode is
  \<^verbatim>\<open>BlendMultiply\<close> is drawn with \<^verbatim>\<open>BlendMultiply\<close>, not with alpha blending.
\<close>

theorem fog_area_blend_counterexample:
  "blendMode (snd (last (LightingArea_draw (LightingArea_ctor FOG (0, 0) (10, 10) 1) []
        (RenderStates_Default\<lparr>blendMode := BlendMultiply\<rparr>)))) = BlendMultiply
   \<and> BlendMultiply \<noteq> BlendAlpha"
  by (simp add: LightingArea_draw_def Let_def RenderTarget_draw_def area_defs
      RenderStates_Default_def BlendMultiply_def BlendAlpha_def)

section \<open>The range of a cast ray\<close>

lemma distance_ray_point: "distance (ray_point r t) (ray_origin r) = \<bar>t\<bar>"
proof -
  have "(t * cos (ray_angle r))\<^sup>2 + (t * sin (ray_angle r))\<^sup>2
          = t\<^sup>2 * ((cos (ray_angle r))\<^sup>2 + (sin (ray_angle r))\<^sup>2)"
    by (simp only: power_mult_distrib distrib_left)
  also have "\<dots> = t\<^sup>2"
    by simp
  finally have "sqrt ((t * cos (ray_angle r))\<^sup>2 + (t * sin (ray_angle r))\<^sup>2) = \<bar>t\<bar>"
    by simp
  then show ?thesis
    by (simp add: distance_def ray_point_def ray_direction_def)
qed

lemma fold_min_member: "fold min ts (t::real) \<in> set (t # ts)"
proof (induction ts arbitrary: t)
  case Nil
  show ?case by simp
next
  case (Cons x xs)
  have "fold min xs (min x t) \<in> set (min x t # xs)"
    by (rule Cons.IH)
  moreover have "min x t = x \<or> min x t = t"
    by (simp add: min_def)
  ultimately show ?case
    by auto
qed

lemma ray_hits_bounds: "t \<in> set (ray_hits light r maxRange) \<Longrightarrow> 0 < t \<and> t \<le> maxRange"
  by (simp add: ray_hits_def)

text \<open>
  C8. As amended: for every ray and every \<^verbatim>\<open>maxRange\<close> that is not negative, \<^verbatim>\<open>castRay\<close>
  returns a point at distance at most \<^verbatim>\<open>maxRange\<close> from the origin of the ray, and the point
  at distance exactly \<^verbatim>\<open>maxRange\<close> along the ray when no segment of the light's pools meets
  the ray within \<^verbatim>\<open>maxRange\<close>.
\<close>

theorem castRay_within_range:
  assumes "0 \<le> maxRange"
  shows "distance (castRay light r maxRange) (ray_origin r) \<le> maxRange
       \<and> (ray_hits light r maxRange = [] \<longrightarrow>
            castRay light r maxRange = ray_point r maxRange
            \<and> distance (castRay light r maxRange) (ray_origin r) = maxRange)"
proof (cases "ray_hits light r maxRange")
  case Nil
  then have "castRay light r maxRange = ray_point r maxRange"
    by (simp add: castRay_def)
  with assms Nil show ?thesis
    by (simp add: distance_ray_point)
next
  case (Cons t ts)
  let ?u = "fold min ts t"
  have "?u \<in> set (ray_hits light r maxRange)"
    using fold_min_member [of ts t] Cons by simp
  then have "0 < ?u \<and> ?u \<le> maxRange"
    by (rule ray_hits_bounds)
  moreover have "castRay light r maxRange = ray_point r ?u"
    using Cons by (simp add: castRay_def)
  ultimately show ?thesis
    using Cons by (simp add: distance_ray_point)
qed

text \<open>
  A ray from the origin along the x axis with range 2, and a wall at x = 3: nothing is met
  within the range and the ray ends at distance 2.
\<close>

theorem castRay_within_range_witness:
  "(0::real) \<le> 2
   \<and> ray_hits example_light \<lparr>ray_origin = (0, 0), ray_angle = 0\<rparr> 2 = []
   \<and> distance (castRay example_light \<lparr>ray_origin = (0, 0), ray_angle = 0\<rparr> 2) (0, 0) \<le> 2
   \<and> distance (castRay example_light \<lparr>ray_origin = (0, 0), ray_angle = 0\<rparr> 2) (0, 0) = 2"
proof -
  let ?r = "\<lparr>ray_origin = (0, 0), ray_angle = 0\<rparr>"
  have h: "(0::real) \<le> 2"
    by simp
  have e: "ray_hits example_light ?r 2 = []"
    by (simp add: ray_hits_def example_light_def List.map_filter_simps
        ray_segment_intersection_def ray_direction_def cross_def Let_def)
  have "distance (castRay example_light ?r 2) (ray_origin ?r) \<le> 2
      \<and> distance (castRay example_light ?r 2) (ray_origin ?r) = 2"
    using castRay_within_range [OF h, of example_light ?r] e by blast
  then show ?thesis
    using h e by simp
qed

text \<open>With range 5 the same ray stops at the wall.\<close>

lemma castRay_stops_at_wall:
  "castRay example_light \<lparr>ray_origin = (0, 0), ray_angle = 0\<rparr> 5 = (3, 0)"
  by (simp add: ray_defs)

text \<open>
  The claim as stated fails for a negative range, where no point can be near enough: with
  range -1 the ray ends at (-1, 0), at distance 1 from the origin.
\<close>

theorem castRay_negative_range_counterexample:
  "\<not> distance (castRay example_light \<lparr>ray_origin = (0, 0), ray_angle = 0\<rparr> (- 1)) (0, 0) \<le> - 1"
  by (simp add: ray_defs distance_def)

end
